theory Spec2Isabelle
  imports Main
begin

section \<open>The StatefulSet service of the Redis operator\<close>

text \<open>
  A shallow embedding of \<^verbatim>\<open>service/k8s/statefulset.go\<close>. The service talks to three
  collaborators: the Kubernetes client (\<^verbatim>\<open>kubernetes.Interface\<close>), the logger and the
  metrics recorder. The client is a record of functions over the state of the backing
  store, so every theorem holds for any client; the logger and the recorder are sinks,
  and what they receive is appended to one trace, in the order of the calls.
\<close>

subsection \<open>Errors\<close>

text \<open>
  A Go \<^verbatim>\<open>error\<close> is an API status error (apimachinery's \<^verbatim>\<open>*StatusError\<close>, whose
  \<^verbatim>\<open>ErrStatus\<close> carries a reason, an HTTP code and a message), a plain error made by
  \<^verbatim>\<open>errors.New\<close>, or an error that wraps another one, as \<^verbatim>\<open>fmt.Errorf\<close> with \<open>%w\<close>
  makes it. A nil error is \<open>None\<close> of \<open>error option\<close>.
\<close>

type_synonym StatusReason = string

record Status =
  Reason :: StatusReason
  Code :: int
  Message :: string

datatype error = StatusError Status | errorString string | wrapError string error

text \<open>The reasons of \<^verbatim>\<open>metav1\<close>; the unknown reason is the empty string.\<close>

definition StatusReasonUnknown :: StatusReason where
  "StatusReasonUnknown = []"

definition StatusReasonUnauthorized :: StatusReason where
  "StatusReasonUnauthorized = ''Unauthorized''"

definition StatusReasonForbidden :: StatusReason where
  "StatusReasonForbidden = ''Forbidden''"

definition StatusReasonNotFound :: StatusReason where
  "StatusReasonNotFound = ''NotFound''"

definition StatusReasonAlreadyExists :: StatusReason where
  "StatusReasonAlreadyExists = ''AlreadyExists''"

definition StatusReasonConflict :: StatusReason where
  "StatusReasonConflict = ''Conflict''"

definition StatusReasonGone :: StatusReason where
  "StatusReasonGone = ''Gone''"

definition StatusReasonInvalid :: StatusReason where
  "StatusReasonInvalid = ''Invalid''"

definition StatusReasonServerTimeout :: StatusReason where
  "StatusReasonServerTimeout = ''ServerTimeout''"

definition StatusReasonTimeout :: StatusReason where
  "StatusReasonTimeout = ''Timeout''"

definition StatusReasonTooManyRequests :: StatusReason where
  "StatusReasonTooManyRequests = ''TooManyRequests''"

definition StatusReasonBadRequest :: StatusReason where
  "StatusReasonBadRequest = ''BadRequest''"

definition StatusReasonMethodNotAllowed :: StatusReason where
  "StatusReasonMethodNotAllowed = ''MethodNotAllowed''"

definition StatusReasonNotAcceptable :: StatusReason where
  "StatusReasonNotAcceptable = ''NotAcceptable''"

definition StatusReasonRequestEntityTooLarge :: StatusReason where
  "StatusReasonRequestEntityTooLarge = ''RequestEntityTooLarge''"

definition StatusReasonUnsupportedMediaType :: StatusReason where
  "StatusReasonUnsupportedMediaType = ''UnsupportedMediaType''"

definition StatusReasonInternalError :: StatusReason where
  "StatusReasonInternalError = ''InternalError''"

definition StatusReasonExpired :: StatusReason where
  "StatusReasonExpired = ''Expired''"

definition StatusReasonServiceUnavailable :: StatusReason where
  "StatusReasonServiceUnavailable = ''ServiceUnavailable''"

text \<open>\<^verbatim>\<open>knownReasons\<close> of apimachinery's errors package: every reason but the unknown one.\<close>

definition knownReasons :: "StatusReason list" where
  "knownReasons =
     [StatusReasonUnauthorized, StatusReasonForbidden, StatusReasonNotFound,
      StatusReasonAlreadyExists, StatusReasonConflict, StatusReasonGone, StatusReasonInvalid,
      StatusReasonServerTimeout, StatusReasonTimeout, StatusReasonTooManyRequests,
      StatusReasonBadRequest, StatusReasonMethodNotAllowed, StatusReasonNotAcceptable,
      StatusReasonRequestEntityTooLarge, StatusReasonUnsupportedMediaType,
      StatusReasonInternalError, StatusReasonExpired, StatusReasonServiceUnavailable]"

text \<open>\<^verbatim>\<open>http.StatusNotFound\<close>\<close>

definition StatusNotFound :: int where
  "StatusNotFound = 404"

text \<open>
  \<^verbatim>\<open>reasonAndCodeForError\<close>: the reason and code of the first status error on the chain
  of wrapped errors (\<^verbatim>\<open>errors.As\<close>), the unknown reason and code 0 when there is none.
\<close>

fun reasonAndCodeForError :: "error \<Rightarrow> StatusReason \<times> int" where
  "reasonAndCodeForError (StatusError status) = (Reason status, Code status)"
| "reasonAndCodeForError (errorString msg) = (StatusReasonUnknown, 0)"
| "reasonAndCodeForError (wrapError msg err) = reasonAndCodeForError err"

text \<open>
  \<^verbatim>\<open>errors.IsNotFound\<close> of apimachinery, which the service calls on the error of a get.
  It is true of the reason NotFound, and also of a reason the package does not know
  that comes with the HTTP code 404; it sees through wrapping. The message plays no
  part.
\<close>

definition IsNotFound :: "error \<Rightarrow> bool" where
  "IsNotFound err =
     (let (reason, code) = reasonAndCodeForError err
      in if reason = StatusReasonNotFound then True
         else if reason \<notin> set knownReasons \<and> code = StatusNotFound then True
         else False)"

text \<open>\<^verbatim>\<open>err.Error()\<close>: the text of an error.\<close>

fun Error :: "error \<Rightarrow> string" where
  "Error (StatusError status) = Message status"
| "Error (errorString msg) = msg"
| "Error (wrapError msg err) = msg"

subsection \<open>API objects\<close>

text \<open>
  A Go \<^verbatim>\<open>map[string]string\<close> is a list of its entries, in the order in which the
  \<^verbatim>\<open>range\<close> statement of this run visits them (Go leaves that order open); a nil map
  is the empty list. \<^verbatim>\<open>ObjectMeta\<close> is embedded in every API object, as the parent
  record: \<^verbatim>\<open>statefulSet.Name\<close> is \<open>Name statefulSet\<close>.
\<close>

record LabelSelector =
  MatchLabels :: "(string \<times> string) list"

record ObjectMeta =
  Name :: string
  Namespace :: string
  ResourceVersion :: string
  Labels :: "(string \<times> string) list"

record StatefulSetSpec =
  Replicas :: "int option"
  Selector :: "LabelSelector option"
  ServiceName :: string

record StatefulSet = ObjectMeta +
  Spec :: StatefulSetSpec

record Pod = ObjectMeta +
  NodeName :: string

type_synonym PodList = "Pod list"

type_synonym StatefulSetList = "StatefulSet list"

datatype DeletionPropagation =
    DeletePropagationOrphan
  | DeletePropagationBackground
  | DeletePropagationForeground

record DeleteOptions =
  PropagationPolicy :: "DeletionPropagation option"

record ListOptions =
  LabelSelector :: string

subsection \<open>The client, the trace and the world\<close>

text \<open>
  The calls a client receives, named as client-go's testing package names them. The
  options of get, create and update are always the zero value in this service and are
  left out.
\<close>

datatype Resource = statefulsets | pods

datatype Action =
    GetAction Resource string string
  | CreateAction Resource string StatefulSet
  | UpdateAction Resource string StatefulSet
  | DeleteAction Resource string string DeleteOptions
  | ListAction Resource string ListOptions

text \<open>
  What the collaborators see: a call to the client with the error it answered, a
  report to the metrics recorder (namespace, kind, object, operation, error), a line
  of the logger (its fields and the message).
\<close>

datatype Event =
    Call Action "error option"
  | Metric string string string string "error option"
  | Info "(string \<times> string) list" string

text \<open>
  \<^verbatim>\<open>kubernetes.Interface\<close>, the methods the service uses. A method returning
  \<^verbatim>\<open>(*T, error)\<close> returns a pair of options: Go allows any of the four combinations.
  The client reads the object it is given and does not write through the pointer.
\<close>

record 'c Interface =
  StatefulSets_Get :: "string \<Rightarrow> string \<Rightarrow> 'c \<Rightarrow> (StatefulSet option \<times> error option) \<times> 'c"
  StatefulSets_Create :: "string \<Rightarrow> StatefulSet \<Rightarrow> 'c \<Rightarrow> (StatefulSet option \<times> error option) \<times> 'c"
  StatefulSets_Update :: "string \<Rightarrow> StatefulSet \<Rightarrow> 'c \<Rightarrow> (StatefulSet option \<times> error option) \<times> 'c"
  StatefulSets_Delete :: "string \<Rightarrow> string \<Rightarrow> DeleteOptions \<Rightarrow> 'c \<Rightarrow> error option \<times> 'c"
  StatefulSets_List :: "string \<Rightarrow> ListOptions \<Rightarrow> 'c \<Rightarrow> (StatefulSetList option \<times> error option) \<times> 'c"
  Pods_List :: "string \<Rightarrow> ListOptions \<Rightarrow> 'c \<Rightarrow> (PodList option \<times> error option) \<times> 'c"

record 'c World =
  store :: 'c
  trace :: "Event list"

text \<open>
  \<^verbatim>\<open>StatefulSetService\<close>. The logger is the list of its context fields; the metrics
  recorder has no state of its own beyond the trace.
\<close>

record 'c StatefulSetService =
  kubeClient :: "'c Interface"
  logger :: "(string \<times> string) list"

text \<open>The outcome of a Go function that can dereference a nil pointer.\<close>

datatype 'a Go = Return 'a | Panic

subsection \<open>Helpers of the package and of the standard library\<close>

definition invoked :: "Action \<Rightarrow> error option \<Rightarrow> 'c \<Rightarrow> 'c World \<Rightarrow> 'c World" where
  "invoked a err c w = w\<lparr>store := c, trace := trace w @ [Call a err]\<rparr>"

text \<open>
  Modelled from the spec: \<^verbatim>\<open>recordMetrics\<close> is a function of the package whose file is
  not among the sources. The instrumentation sink is called with the namespace, the
  kind, the object name, the verb and the error; it returns nothing and cannot fail
  the caller.
\<close>

definition recordMetrics :: "string \<Rightarrow> string \<Rightarrow> string \<Rightarrow> string \<Rightarrow> error option \<Rightarrow> 'c World \<Rightarrow> 'c World" where
  "recordMetrics namespace kind object operation err w =
     w\<lparr>trace := trace w @ [Metric namespace kind object operation err]\<rparr>"

text \<open>
  Modelled from the spec: \<^verbatim>\<open>metrics.NOT_APPLICABLE\<close>, the sentinel object name of a
  list operation with no single target. Its value is not among the sources; no
  theorem depends on it.
\<close>

definition NOT_APPLICABLE :: string where
  "NOT_APPLICABLE = ''NA''"

definition Infof :: "(string \<times> string) list \<Rightarrow> string \<Rightarrow> 'c World \<Rightarrow> 'c World" where
  "Infof kvs msg w = w\<lparr>trace := trace w @ [Info kvs msg]\<rparr>"

text \<open>\<^verbatim>\<open>fmt.Sprintf("%s=%s", k, v)\<close>\<close>

definition Sprintf :: "string \<Rightarrow> string \<Rightarrow> string" where
  "Sprintf k v = k @ ''='' @ v"

text \<open>\<^verbatim>\<open>strings.Join(elems, sep)\<close>\<close>

fun Join :: "string list \<Rightarrow> string \<Rightarrow> string" where
  "Join [] sep = []"
| "Join [x] sep = x"
| "Join (x # y # ys) sep = x @ sep @ Join (y # ys) sep"

subsection \<open>The service\<close>

definition NewStatefulSetService :: "'c Interface \<Rightarrow> (string \<times> string) list \<Rightarrow> 'c StatefulSetService" where
  "NewStatefulSetService kubeClient' logger' =
     \<lparr>kubeClient = kubeClient', logger = logger' @ [(''service'', ''k8s.statefulSet'')]\<rparr>"

definition GetStatefulSet ::
  "'c StatefulSetService \<Rightarrow> string \<Rightarrow> string \<Rightarrow> 'c World \<Rightarrow> (StatefulSet option \<times> error option) \<times> 'c World" where
  "GetStatefulSet s namespace name w =
     (let ((statefulSet, err), c) = StatefulSets_Get (kubeClient s) namespace name (store w);
          w1 = invoked (GetAction statefulsets namespace name) err c w;
          w2 = recordMetrics namespace ''StatefulSet'' name ''GET'' err w1
      in if err \<noteq> None then ((None, err), w2) else ((statefulSet, err), w2))"

definition CreateStatefulSet ::
  "'c StatefulSetService \<Rightarrow> string \<Rightarrow> StatefulSet \<Rightarrow> 'c World \<Rightarrow> error option \<times> 'c World" where
  "CreateStatefulSet s namespace statefulSet w =
     (let ((created, err), c) = StatefulSets_Create (kubeClient s) namespace statefulSet (store w);
          w1 = invoked (CreateAction statefulsets namespace statefulSet) err c w;
          w2 = recordMetrics namespace ''StatefulSet'' (Name statefulSet) ''CREATE'' err w1
      in if err \<noteq> None then (err, w2)
         else (err, Infof (logger s @ [(''namespace'', namespace), (''statefulSet'', Name statefulSet)])
                      ''statefulSet created'' w2))"

definition UpdateStatefulSet ::
  "'c StatefulSetService \<Rightarrow> string \<Rightarrow> StatefulSet \<Rightarrow> 'c World \<Rightarrow> error option \<times> 'c World" where
  "UpdateStatefulSet s namespace statefulSet w =
     (let ((updated, err), c) = StatefulSets_Update (kubeClient s) namespace statefulSet (store w);
          w1 = invoked (UpdateAction statefulsets namespace statefulSet) err c w;
          w2 = recordMetrics namespace ''StatefulSet'' (Name statefulSet) ''UPDATE'' err w1
      in if err \<noteq> None then (err, w2)
         else (err, Infof (logger s @ [(''namespace'', namespace), (''statefulSet'', Name statefulSet)])
                      ''statefulSet updated'' w2))"

text \<open>
  \<^verbatim>\<open>CreateOrUpdateStatefulSet\<close> takes a pointer to the desired object and assigns to
  one of its fields, so the model returns the caller's object as it is after the
  call, between the result and the world. When the client answers a get with neither
  an object nor an error, reading \<^verbatim>\<open>storedStatefulSet.ResourceVersion\<close> panics.
\<close>

definition CreateOrUpdateStatefulSet ::
  "'c StatefulSetService \<Rightarrow> string \<Rightarrow> StatefulSet \<Rightarrow> 'c World \<Rightarrow> error option Go \<times> StatefulSet \<times> 'c World" where
  "CreateOrUpdateStatefulSet s namespace statefulSet w =
     (let ((storedStatefulSet, err), w1) = GetStatefulSet s namespace (Name statefulSet) w
      in case err of
           Some e \<Rightarrow>
             if IsNotFound e
             then (let (r, w2) = CreateStatefulSet s namespace statefulSet w1
                   in (Return r, statefulSet, w2))
             else (Return err, statefulSet, w1)
         | None \<Rightarrow>
             (case storedStatefulSet of
                None \<Rightarrow> (Panic, statefulSet, w1)
              | Some stored \<Rightarrow>
                  (let statefulSet' = statefulSet\<lparr>ResourceVersion := ResourceVersion stored\<rparr>;
                       (r, w2) = UpdateStatefulSet s namespace statefulSet' w1
                   in (Return r, statefulSet', w2))))"

text \<open>
  The loop of \<^verbatim>\<open>GetStatefulSetPods\<close> over the match labels: every entry appends its
  \<open>k=v\<close> to the slice \<open>labels\<close>.
\<close>

fun range_MatchLabels :: "(string \<times> string) list \<Rightarrow> string list \<Rightarrow> string list" where
  "range_MatchLabels [] labels = labels"
| "range_MatchLabels ((k, v) # kvs) labels = range_MatchLabels kvs (labels @ [Sprintf k v])"

text \<open>
  \<^verbatim>\<open>Spec.Selector\<close> is a pointer: on a StatefulSet without a selector, and on a get
  answered with neither an object nor an error, the function panics.
\<close>

definition GetStatefulSetPods ::
  "'c StatefulSetService \<Rightarrow> string \<Rightarrow> string \<Rightarrow> 'c World \<Rightarrow> (PodList option \<times> error option) Go \<times> 'c World" where
  "GetStatefulSetPods s namespace name w =
     (let ((statefulSet, err), w1) = GetStatefulSet s namespace name w
      in if err \<noteq> None then (Return (None, err), w1)
         else (case statefulSet of
                 None \<Rightarrow> (Panic, w1)
               | Some sts \<Rightarrow>
                   (case Selector (Spec sts) of
                      None \<Rightarrow> (Panic, w1)
                    | Some sel \<Rightarrow>
                        (let labels = range_MatchLabels (MatchLabels sel) [];
                             selector = Join labels '','';
                             opts = \<lparr>LabelSelector = selector\<rparr>;
                             (res, c) = Pods_List (kubeClient s) namespace opts (store w1)
                         in (Return res, invoked (ListAction pods namespace opts) (snd res) c w1)))))"

definition DeleteStatefulSet ::
  "'c StatefulSetService \<Rightarrow> string \<Rightarrow> string \<Rightarrow> 'c World \<Rightarrow> error option \<times> 'c World" where
  "DeleteStatefulSet s namespace name w =
     (let propagation = DeletePropagationForeground;
          opts = \<lparr>PropagationPolicy = Some propagation\<rparr>;
          (err, c) = StatefulSets_Delete (kubeClient s) namespace name opts (store w);
          w1 = invoked (DeleteAction statefulsets namespace name opts) err c w;
          w2 = recordMetrics namespace ''StatefulSet'' name ''DELETE'' err w1
      in (err, w2))"

definition ListStatefulSets ::
  "'c StatefulSetService \<Rightarrow> string \<Rightarrow> 'c World \<Rightarrow> (StatefulSetList option \<times> error option) \<times> 'c World" where
  "ListStatefulSets s namespace w =
     (let opts = \<lparr>LabelSelector = []\<rparr>;
          ((stsList, err), c) = StatefulSets_List (kubeClient s) namespace opts (store w);
          w1 = invoked (ListAction statefulsets namespace opts) err c w;
          w2 = recordMetrics namespace ''StatefulSet'' NOT_APPLICABLE ''LIST'' err w1
      in ((stsList, err), w2))"

subsection \<open>Reading a trace\<close>

text \<open>The events of a run: what the trace holds after it beyond what it held before.\<close>

definition since :: "'c World \<Rightarrow> 'c World \<Rightarrow> Event list" where
  "since w w' = drop (length (trace w)) (trace w')"

text \<open>The calls the client received, each with the error it answered, in order.\<close>

fun calls_of :: "Event list \<Rightarrow> (Action \<times> error option) list" where
  "calls_of [] = []"
| "calls_of (Call a err # evs) = (a, err) # calls_of evs"
| "calls_of (Metric namespace kind object operation err # evs) = calls_of evs"
| "calls_of (Info kvs msg # evs) = calls_of evs"

text \<open>The reports the metrics recorder received, in order.\<close>

fun metrics_of :: "Event list \<Rightarrow> Event list" where
  "metrics_of [] = []"
| "metrics_of (Call a err # evs) = metrics_of evs"
| "metrics_of (Metric namespace kind object operation err # evs) =
     Metric namespace kind object operation err # metrics_of evs"
| "metrics_of (Info kvs msg # evs) = metrics_of evs"

text \<open>
  The report that the instrumentation contract asks for a call: namespace, kind,
  object name (the sentinel for a list), verb and error.
\<close>

fun kind_of :: "Resource \<Rightarrow> string" where
  "kind_of statefulsets = ''StatefulSet''"
| "kind_of pods = ''Pod''"

fun report_of :: "Action \<times> error option \<Rightarrow> Event" where
  "report_of (GetAction r namespace name, err) = Metric namespace (kind_of r) name ''GET'' err"
| "report_of (CreateAction r namespace obj, err) = Metric namespace (kind_of r) (Name obj) ''CREATE'' err"
| "report_of (UpdateAction r namespace obj, err) = Metric namespace (kind_of r) (Name obj) ''UPDATE'' err"
| "report_of (DeleteAction r namespace name opts, err) = Metric namespace (kind_of r) name ''DELETE'' err"
| "report_of (ListAction r namespace opts, err) = Metric namespace (kind_of r) NOT_APPLICABLE ''LIST'' err"

text \<open>\<^verbatim>\<open>strings.HasPrefix\<close> and \<^verbatim>\<open>strings.Contains\<close>, to read the text of an error.\<close>

fun HasPrefix :: "string \<Rightarrow> string \<Rightarrow> bool" where
  "HasPrefix s [] = True"
| "HasPrefix [] (p # ps) = False"
| "HasPrefix (c # cs) (p # ps) = (c = p \<and> HasPrefix cs ps)"

fun Contains :: "string \<Rightarrow> string \<Rightarrow> bool" where
  "Contains [] substr = (substr = [])"
| "Contains (c # cs) substr = (HasPrefix (c # cs) substr \<or> Contains cs substr)"

subsection \<open>A client for concrete runs\<close>

text \<open>
  The API server is outside the repository. For runs on concrete inputs the client is a
  fake in the manner of the repository's tests, which install a reactor per verb that
  answers with a fixed object and error. The pod list of the fake selects by namespace
  and by a selector of comma-separated \<open>k=v\<close> requirements, all of which a pod's labels
  must meet; the empty selector has no requirement.
\<close>

record Cluster =
  getStatefulSetResult :: "StatefulSet option"
  errorOnGet :: "error option"
  errorOnCreation :: "error option"
  errorOnUpdate :: "error option"
  errorOnDelete :: "error option"
  podsOfCluster :: "Pod list"

fun requirements :: "string \<Rightarrow> string \<Rightarrow> string list" where
  "requirements [] cur = (if cur = [] then [] else [cur])"
| "requirements (c # cs) cur =
     (if c = CHR '',''
      then (if cur = [] then requirements cs [] else cur # requirements cs [])
      else requirements cs (cur @ [c]))"

definition selects :: "string \<Rightarrow> (string \<times> string) list \<Rightarrow> bool" where
  "selects selector labels =
     list_all (\<lambda>req. req \<in> set (map (\<lambda>(k, v). Sprintf k v) labels)) (requirements selector [])"

definition fakeClient :: "Cluster Interface" where
  "fakeClient =
     \<lparr>StatefulSets_Get = (\<lambda>namespace name c. ((getStatefulSetResult c, errorOnGet c), c)),
      StatefulSets_Create = (\<lambda>namespace obj c. ((None, errorOnCreation c), c)),
      StatefulSets_Update = (\<lambda>namespace obj c. ((None, errorOnUpdate c), c)),
      StatefulSets_Delete = (\<lambda>namespace name opts c. (errorOnDelete c, c)),
      StatefulSets_List = (\<lambda>namespace opts c. ((Some [], None), c)),
      Pods_List = (\<lambda>namespace opts c.
        ((Some (filter (\<lambda>p. Namespace p = namespace \<and> selects (LabelSelector opts) (Labels p))
                  (podsOfCluster c)), None), c))\<rparr>"

definition service :: "Cluster StatefulSetService" where
  "service = NewStatefulSetService fakeClient []"

definition world :: "Cluster \<Rightarrow> Cluster World" where
  "world c = \<lparr>store = c, trace = []\<rparr>"

text \<open>
  The scenario of the design: the desired StatefulSet \<open>redis-1\<close> in namespace \<open>ns-a\<close>.
  The caller's object carries a version token of its own, \<open>7\<close>; the stored object
  carries the token \<open>10\<close>.
\<close>

definition redis1 :: StatefulSet where
  "redis1 =
     \<lparr>Name = ''redis-1'', Namespace = ''ns-a'', ResourceVersion = ''7'', Labels = [],
      Spec = \<lparr>Replicas = Some 3,
              Selector = Some \<lparr>MatchLabels = [(''app'', ''redis''), (''role'', ''replica'')]\<rparr>,
              ServiceName = ''redis''\<rparr>\<rparr>"

definition stored_redis1 :: StatefulSet where
  "stored_redis1 = redis1\<lparr>ResourceVersion := ''10''\<rparr>"

definition stored_unselective :: StatefulSet where
  "stored_unselective =
     stored_redis1\<lparr>Spec := (Spec stored_redis1)\<lparr>Selector := Some \<lparr>MatchLabels = []\<rparr>\<rparr>\<rparr>"

definition pod :: "string \<Rightarrow> string \<Rightarrow> (string \<times> string) list \<Rightarrow> Pod" where
  "pod namespace name labels =
     \<lparr>Name = name, Namespace = namespace, ResourceVersion = ''1'', Labels = labels, NodeName = ''node-1''\<rparr>"

definition somePods :: "Pod list" where
  "somePods =
     [pod ''ns-a'' ''redis-1-0'' [(''app'', ''redis''), (''role'', ''replica'')],
      pod ''ns-a'' ''web-0'' [(''app'', ''web'')],
      pod ''ns-b'' ''redis-9-0'' [(''app'', ''redis''), (''role'', ''replica'')]]"

definition notFound :: error where
  "notFound = StatusError \<lparr>Reason = StatusReasonNotFound, Code = 404, Message = ''not found''\<rparr>"

definition forbidden :: error where
  "forbidden = StatusError \<lparr>Reason = StatusReasonForbidden, Code = 403, Message = ''forbidden''\<rparr>"

definition wanted :: error where
  "wanted = errorString ''wanted error''"

definition absent :: Cluster where
  "absent =
     \<lparr>getStatefulSetResult = None, errorOnGet = Some notFound, errorOnCreation = None,
      errorOnUpdate = None, errorOnDelete = None, podsOfCluster = somePods\<rparr>"

definition present :: Cluster where
  "present = absent\<lparr>getStatefulSetResult := Some stored_redis1, errorOnGet := None\<rparr>"

definition denied :: Cluster where
  "denied = absent\<lparr>errorOnGet := Some forbidden\<rparr>"

definition create_fails :: Cluster where
  "create_fails = absent\<lparr>errorOnCreation := Some wanted\<rparr>"

definition conflict :: error where
  "conflict =
     StatusError \<lparr>Reason = StatusReasonConflict, Code = 409, Message = ''the object has been modified''\<rparr>"

definition update_fails :: Cluster where
  "update_fails = present\<lparr>errorOnUpdate := Some conflict\<rparr>"

definition unselective :: Cluster where
  "unselective = present\<lparr>getStatefulSetResult := Some stored_unselective\<rparr>"

text \<open>
  Two more errors that \<^verbatim>\<open>errors.IsNotFound\<close> accepts: a status error of unknown reason
  with code 404, and a NotFound status error wrapped in another error.
\<close>

definition unknown404 :: error where
  "unknown404 = StatusError \<lparr>Reason = StatusReasonUnknown, Code = 404, Message = ''gone''\<rparr>"

definition wrappedNotFound :: error where
  "wrappedNotFound = wrapError ''get statefulset: not found'' notFound"

definition vanished :: Cluster where
  "vanished = absent\<lparr>errorOnGet := Some unknown404\<rparr>"

definition wrapped_absent :: Cluster where
  "wrapped_absent = absent\<lparr>errorOnGet := Some wrappedNotFound\<rparr>"

text \<open>A stored StatefulSet whose \<^verbatim>\<open>Spec.Selector\<close> is nil, and a cluster that answers the get with it.\<close>

definition stored_selectorless :: StatefulSet where
  "stored_selectorless = stored_redis1\<lparr>Spec := (Spec stored_redis1)\<lparr>Selector := None\<rparr>\<rparr>"

definition selectorless :: Cluster where
  "selectorless = present\<lparr>getStatefulSetResult := Some stored_selectorless\<rparr>"

section \<open>Runs of the operations\<close>

text \<open>What each operation returns and appends to the trace, for any client, by the answers of the client.\<close>

lemma since_append: "trace w' = trace w @ evs \<Longrightarrow> since w w' = evs"
  by (simp add: since_def)

lemma range_MatchLabels_map:
  "range_MatchLabels kvs labels = labels @ map (\<lambda>(k, v). k @ ''='' @ v) kvs"
  by (induction kvs labels rule: range_MatchLabels.induct) (simp_all add: Sprintf_def)

lemma GetStatefulSet_run:
  assumes "StatefulSets_Get (kubeClient s) ns name (store w) = ((obj, err), c)"
  shows "GetStatefulSet s ns name w =
           ((if err = None then obj else None, err),
            w\<lparr>store := c,
              trace := trace w @ [Call (GetAction statefulsets ns name) err,
                                  Metric ns ''StatefulSet'' name ''GET'' err]\<rparr>)"
  using assms by (simp add: GetStatefulSet_def invoked_def recordMetrics_def)

lemma CreateStatefulSet_run:
  assumes "StatefulSets_Create (kubeClient s) ns d (store w) = ((obj, err), c)"
  shows "CreateStatefulSet s ns d w =
           (err,
            w\<lparr>store := c,
              trace := trace w @ [Call (CreateAction statefulsets ns d) err,
                                  Metric ns ''StatefulSet'' (Name d) ''CREATE'' err]
                 @ (if err = None
                    then [Info (logger s @ [(''namespace'', ns), (''statefulSet'', Name d)]) ''statefulSet created'']
                    else [])\<rparr>)"
  using assms by (simp add: CreateStatefulSet_def invoked_def recordMetrics_def Infof_def)

lemma UpdateStatefulSet_run:
  assumes "StatefulSets_Update (kubeClient s) ns d (store w) = ((obj, err), c)"
  shows "UpdateStatefulSet s ns d w =
           (err,
            w\<lparr>store := c,
              trace := trace w @ [Call (UpdateAction statefulsets ns d) err,
                                  Metric ns ''StatefulSet'' (Name d) ''UPDATE'' err]
                 @ (if err = None
                    then [Info (logger s @ [(''namespace'', ns), (''statefulSet'', Name d)]) ''statefulSet updated'']
                    else [])\<rparr>)"
  using assms by (simp add: UpdateStatefulSet_def invoked_def recordMetrics_def Infof_def)

lemma CreateOrUpdate_absent:
  assumes get: "StatefulSets_Get (kubeClient s) ns (Name d) (store w) = ((obj, Some e), c1)"
    and nf: "IsNotFound e"
    and create: "StatefulSets_Create (kubeClient s) ns d c1 = ((cobj, cerr), c2)"
  shows "CreateOrUpdateStatefulSet s ns d w =
           (Return cerr, d,
            w\<lparr>store := c2,
              trace := trace w @ [Call (GetAction statefulsets ns (Name d)) (Some e),
                                  Metric ns ''StatefulSet'' (Name d) ''GET'' (Some e),
                                  Call (CreateAction statefulsets ns d) cerr,
                                  Metric ns ''StatefulSet'' (Name d) ''CREATE'' cerr]
                 @ (if cerr = None
                    then [Info (logger s @ [(''namespace'', ns), (''statefulSet'', Name d)]) ''statefulSet created'']
                    else [])\<rparr>)"
  using nf create
  by (simp add: CreateOrUpdateStatefulSet_def GetStatefulSet_run [OF get] CreateStatefulSet_run)

lemma CreateOrUpdate_fetch_failed:
  assumes get: "StatefulSets_Get (kubeClient s) ns (Name d) (store w) = ((obj, Some e), c1)"
    and nf: "\<not> IsNotFound e"
  shows "CreateOrUpdateStatefulSet s ns d w =
           (Return (Some e), d,
            w\<lparr>store := c1,
              trace := trace w @ [Call (GetAction statefulsets ns (Name d)) (Some e),
                                  Metric ns ''StatefulSet'' (Name d) ''GET'' (Some e)]\<rparr>)"
  using nf
  by (simp add: CreateOrUpdateStatefulSet_def GetStatefulSet_run [OF get])

lemma CreateOrUpdate_present:
  assumes get: "StatefulSets_Get (kubeClient s) ns (Name d) (store w) = ((Some stored, None), c1)"
    and update: "StatefulSets_Update (kubeClient s) ns (d\<lparr>ResourceVersion := ResourceVersion stored\<rparr>) c1
                   = ((uobj, uerr), c2)"
  shows "CreateOrUpdateStatefulSet s ns d w =
           (Return uerr, d\<lparr>ResourceVersion := ResourceVersion stored\<rparr>,
            w\<lparr>store := c2,
              trace := trace w @ [Call (GetAction statefulsets ns (Name d)) None,
                                  Metric ns ''StatefulSet'' (Name d) ''GET'' None,
                                  Call (UpdateAction statefulsets ns (d\<lparr>ResourceVersion := ResourceVersion stored\<rparr>)) uerr,
                                  Metric ns ''StatefulSet'' (Name d) ''UPDATE'' uerr]
                 @ (if uerr = None
                    then [Info (logger s @ [(''namespace'', ns), (''statefulSet'', Name d)]) ''statefulSet updated'']
                    else [])\<rparr>)"
  using update
  by (simp add: CreateOrUpdateStatefulSet_def GetStatefulSet_run [OF get] UpdateStatefulSet_run Let_def)

lemma CreateOrUpdate_nil:
  assumes get: "StatefulSets_Get (kubeClient s) ns (Name d) (store w) = ((None, None), c1)"
  shows "CreateOrUpdateStatefulSet s ns d w =
           (Panic, d,
            w\<lparr>store := c1,
              trace := trace w @ [Call (GetAction statefulsets ns (Name d)) None,
                                  Metric ns ''StatefulSet'' (Name d) ''GET'' None]\<rparr>)"
  by (simp add: CreateOrUpdateStatefulSet_def GetStatefulSet_run [OF get])

lemma GetStatefulSetPods_run:
  assumes get: "StatefulSets_Get (kubeClient s) ns name (store w) = ((Some sts, None), c1)"
    and sel: "Selector (Spec sts) = Some sel"
    and list: "Pods_List (kubeClient s) ns
                 \<lparr>LabelSelector = Join (map (\<lambda>(k, v). k @ ''='' @ v) (MatchLabels sel)) '',''\<rparr> c1
               = ((pl, lerr), c2)"
  shows "GetStatefulSetPods s ns name w =
           (Return (pl, lerr),
            w\<lparr>store := c2,
              trace := trace w @ [Call (GetAction statefulsets ns name) None,
                                  Metric ns ''StatefulSet'' name ''GET'' None,
                                  Call (ListAction pods ns
                                    \<lparr>LabelSelector = Join (map (\<lambda>(k, v). k @ ''='' @ v) (MatchLabels sel)) '',''\<rparr>) lerr]\<rparr>)"
  using sel list
  by (simp add: GetStatefulSetPods_def GetStatefulSet_run [OF get] range_MatchLabels_map invoked_def)

text \<open>The four ways a run of \<^verbatim>\<open>CreateOrUpdateStatefulSet\<close> can go, by the answer to the get.\<close>

lemma CreateOrUpdate_cases:
  assumes get: "StatefulSets_Get (kubeClient s) ns (Name d) (store w) = ((obj, err), c1)"
    and run: "CreateOrUpdateStatefulSet s ns d w = (r, d', w')"
  obtains
    (absent) e cobj cerr c2 where "err = Some e" "IsNotFound e"
      "StatefulSets_Create (kubeClient s) ns d c1 = ((cobj, cerr), c2)"
      "r = Return cerr" "d' = d" "store w' = c2"
      "calls_of (since w w') =
         [(GetAction statefulsets ns (Name d), Some e), (CreateAction statefulsets ns d, cerr)]"
  | (fetch_failed) e where "err = Some e" "\<not> IsNotFound e"
      "r = Return (Some e)" "d' = d" "store w' = c1"
      "calls_of (since w w') = [(GetAction statefulsets ns (Name d), Some e)]"
  | (present) stored uobj uerr c2 where "err = None" "obj = Some stored"
      "StatefulSets_Update (kubeClient s) ns (d\<lparr>ResourceVersion := ResourceVersion stored\<rparr>) c1
         = ((uobj, uerr), c2)"
      "r = Return uerr" "d' = d\<lparr>ResourceVersion := ResourceVersion stored\<rparr>" "store w' = c2"
      "calls_of (since w w') =
         [(GetAction statefulsets ns (Name d), None),
          (UpdateAction statefulsets ns (d\<lparr>ResourceVersion := ResourceVersion stored\<rparr>), uerr)]"
  | (nil) "err = None" "obj = None" "r = Panic" "d' = d" "store w' = c1"
      "calls_of (since w w') = [(GetAction statefulsets ns (Name d), None)]"
proof (cases err)
  case (Some e)
  show ?thesis
  proof (cases "IsNotFound e")
    case True
    obtain cobj cerr c2 where
      create: "StatefulSets_Create (kubeClient s) ns d c1 = ((cobj, cerr), c2)"
      by (metis surj_pair)
    from get Some have get': "StatefulSets_Get (kubeClient s) ns (Name d) (store w) = ((obj, Some e), c1)"
      by simp
    from CreateOrUpdate_absent [OF get' True create] run
    have "r = Return cerr" "d' = d" "store w' = c2"
      "calls_of (since w w') =
         [(GetAction statefulsets ns (Name d), Some e), (CreateAction statefulsets ns d, cerr)]"
      by (auto simp: since_def)
    with Some True create show ?thesis by (rule absent)
  next
    case False
    from get Some have get': "StatefulSets_Get (kubeClient s) ns (Name d) (store w) = ((obj, Some e), c1)"
      by simp
    from CreateOrUpdate_fetch_failed [OF get' False] run
    have "r = Return (Some e)" "d' = d" "store w' = c1"
      "calls_of (since w w') = [(GetAction statefulsets ns (Name d), Some e)]"
      by (auto simp: since_def)
    with Some False show ?thesis by (rule fetch_failed)
  qed
next
  case None
  show ?thesis
  proof (cases obj)
    case (Some stored)
    obtain uobj uerr c2 where
      update: "StatefulSets_Update (kubeClient s) ns (d\<lparr>ResourceVersion := ResourceVersion stored\<rparr>) c1
                 = ((uobj, uerr), c2)"
      by (metis surj_pair)
    from get None Some
    have get': "StatefulSets_Get (kubeClient s) ns (Name d) (store w) = ((Some stored, None), c1)"
      by simp
    from CreateOrUpdate_present [OF get' update] run
    have "r = Return uerr" "d' = d\<lparr>ResourceVersion := ResourceVersion stored\<rparr>" "store w' = c2"
      "calls_of (since w w') =
         [(GetAction statefulsets ns (Name d), None),
          (UpdateAction statefulsets ns (d\<lparr>ResourceVersion := ResourceVersion stored\<rparr>), uerr)]"
      by (auto simp: since_def)
    with None Some update show ?thesis by (rule present)
  next
    case obj_None: None
    from get None obj_None
    have get': "StatefulSets_Get (kubeClient s) ns (Name d) (store w) = ((None, None), c1)"
      by simp
    from CreateOrUpdate_nil [OF get'] run
    have "r = Panic" "d' = d" "store w' = c1"
      "calls_of (since w w') = [(GetAction statefulsets ns (Name d), None)]"
      by (auto simp: since_def)
    with None obj_None show ?thesis by (rule nil)
  qed
qed

section \<open>Concrete runs\<close>

text \<open>The answers of the fake client on the clusters of the scenario.\<close>

lemmas fake_defs = service_def NewStatefulSetService_def fakeClient_def world_def

lemma Name_redis1: "Name redis1 = ''redis-1''"
  by (simp add: redis1_def)

lemma trace_world: "trace (world c) = []"
  by (simp add: world_def)

lemma run_pair: "f = (fst f, fst (snd f), snd (snd f))"
  by simp

section \<open>The classifier of get errors\<close>

text \<open>What \<^verbatim>\<open>errors.IsNotFound\<close> answers, by the shape of the error.\<close>

lemma IsNotFound_StatusError:
  "IsNotFound (StatusError status) =
     (Reason status = StatusReasonNotFound \<or>
      (Reason status \<notin> set knownReasons \<and> Code status = StatusNotFound))"
  by (simp add: IsNotFound_def)

lemma IsNotFound_errorString: "\<not> IsNotFound (errorString msg)"
  by (simp add: IsNotFound_def StatusReasonUnknown_def StatusReasonNotFound_def StatusNotFound_def)

lemma IsNotFound_wrapError: "IsNotFound (wrapError msg err) = IsNotFound err"
  by (simp add: IsNotFound_def)

lemma StatusReasonUnknown_unknown: "StatusReasonUnknown \<notin> set knownReasons"
  by (simp add: knownReasons_def StatusReasonUnknown_def StatusReasonUnauthorized_def
      StatusReasonForbidden_def StatusReasonNotFound_def StatusReasonAlreadyExists_def
      StatusReasonConflict_def StatusReasonGone_def StatusReasonInvalid_def
      StatusReasonServerTimeout_def StatusReasonTimeout_def StatusReasonTooManyRequests_def
      StatusReasonBadRequest_def StatusReasonMethodNotAllowed_def StatusReasonNotAcceptable_def
      StatusReasonRequestEntityTooLarge_def StatusReasonUnsupportedMediaType_def
      StatusReasonInternalError_def StatusReasonExpired_def StatusReasonServiceUnavailable_def)

lemma IsNotFound_notFound: "IsNotFound notFound"
  by (simp add: notFound_def IsNotFound_StatusError)

lemma IsNotFound_unknown404: "IsNotFound unknown404"
  by (simp add: unknown404_def IsNotFound_StatusError StatusReasonUnknown_unknown StatusNotFound_def)

lemma IsNotFound_wrappedNotFound: "IsNotFound wrappedNotFound"
  by (simp add: wrappedNotFound_def IsNotFound_wrapError IsNotFound_notFound)

lemma not_IsNotFound_forbidden: "\<not> IsNotFound forbidden"
  by (simp add: forbidden_def IsNotFound_StatusError StatusReasonForbidden_def
      StatusReasonNotFound_def StatusNotFound_def)

lemma not_IsNotFound_conflict: "\<not> IsNotFound conflict"
  by (simp add: conflict_def IsNotFound_StatusError StatusReasonConflict_def
      StatusReasonNotFound_def StatusNotFound_def)

section \<open>The synchronizer: create or update\<close>

text \<open>
  C1. When the get of (namespace, name) fails with a NotFound error, the client
  receives exactly two calls, the get and one create of the desired object, and no
  update; the result is the error of the create: nil when the create succeeded, its
  error when it failed.
\<close>

theorem absent_creates_once_never_updates:
  assumes "StatefulSets_Get (kubeClient s) ns (Name d) (store w) = ((obj, Some e), c1)"
    and "IsNotFound e"
    and "StatefulSets_Create (kubeClient s) ns d c1 = ((cobj, cerr), c2)"
    and "CreateOrUpdateStatefulSet s ns d w = (r, d', w')"
  shows "r = Return cerr \<and>
         calls_of (since w w') =
           [(GetAction statefulsets ns (Name d), Some e), (CreateAction statefulsets ns d, cerr)]"
  using assms by (elim CreateOrUpdate_cases) auto

theorem absent_creates_once_never_updates_witness:
  "fst (CreateOrUpdateStatefulSet service ''ns-a'' redis1 (world create_fails)) = Return (Some wanted) \<and>
   calls_of (since (world create_fails)
      (snd (snd (CreateOrUpdateStatefulSet service ''ns-a'' redis1 (world create_fails))))) =
     [(GetAction statefulsets ''ns-a'' ''redis-1'', Some notFound),
      (CreateAction statefulsets ''ns-a'' redis1, Some wanted)] \<and>
   fst (CreateOrUpdateStatefulSet service ''ns-a'' redis1 (world vanished)) = Return None \<and>
   calls_of (since (world vanished)
      (snd (snd (CreateOrUpdateStatefulSet service ''ns-a'' redis1 (world vanished))))) =
     [(GetAction statefulsets ''ns-a'' ''redis-1'', Some unknown404),
      (CreateAction statefulsets ''ns-a'' redis1, None)] \<and>
   fst (CreateOrUpdateStatefulSet service ''ns-a'' redis1 (world wrapped_absent)) = Return None \<and>
   calls_of (since (world wrapped_absent)
      (snd (snd (CreateOrUpdateStatefulSet service ''ns-a'' redis1 (world wrapped_absent))))) =
     [(GetAction statefulsets ''ns-a'' ''redis-1'', Some wrappedNotFound),
      (CreateAction statefulsets ''ns-a'' redis1, None)]"
proof -
  have get: "StatefulSets_Get (kubeClient service) ''ns-a'' (Name redis1) (store (world create_fails))
               = ((None, Some notFound), create_fails)"
    by (simp add: fake_defs create_fails_def absent_def)
  have create: "StatefulSets_Create (kubeClient service) ''ns-a'' redis1 create_fails
                  = ((None, Some wanted), create_fails)"
    by (simp add: fake_defs create_fails_def)
  have get2: "StatefulSets_Get (kubeClient service) ''ns-a'' (Name redis1) (store (world vanished))
               = ((None, Some unknown404), vanished)"
    by (simp add: fake_defs vanished_def absent_def)
  have create2: "StatefulSets_Create (kubeClient service) ''ns-a'' redis1 vanished
                  = ((None, None), vanished)"
    by (simp add: fake_defs vanished_def absent_def)
  have get3: "StatefulSets_Get (kubeClient service) ''ns-a'' (Name redis1) (store (world wrapped_absent))
               = ((None, Some wrappedNotFound), wrapped_absent)"
    by (simp add: fake_defs wrapped_absent_def absent_def)
  have create3: "StatefulSets_Create (kubeClient service) ''ns-a'' redis1 wrapped_absent
                  = ((None, None), wrapped_absent)"
    by (simp add: fake_defs wrapped_absent_def absent_def)
  from absent_creates_once_never_updates [OF get IsNotFound_notFound create run_pair]
    absent_creates_once_never_updates [OF get2 IsNotFound_unknown404 create2 run_pair]
    absent_creates_once_never_updates [OF get3 IsNotFound_wrappedNotFound create3 run_pair]
  show ?thesis by (simp add: Name_redis1)
qed

text \<open>
  C2. When the get fails with an error that is not NotFound, that error is the result,
  the get is the only call the client receives, and the store is as the get left it.
\<close>

theorem fetch_failure_stops:
  assumes "StatefulSets_Get (kubeClient s) ns (Name d) (store w) = ((obj, Some e), c1)"
    and "\<not> IsNotFound e"
    and "CreateOrUpdateStatefulSet s ns d w = (r, d', w')"
  shows "r = Return (Some e) \<and>
         calls_of (since w w') = [(GetAction statefulsets ns (Name d), Some e)] \<and>
         store w' = c1"
  using assms by (elim CreateOrUpdate_cases) auto

theorem fetch_failure_stops_witness:
  "fst (CreateOrUpdateStatefulSet service ''ns-a'' redis1 (world denied)) = Return (Some forbidden) \<and>
   calls_of (since (world denied)
      (snd (snd (CreateOrUpdateStatefulSet service ''ns-a'' redis1 (world denied))))) =
     [(GetAction statefulsets ''ns-a'' ''redis-1'', Some forbidden)] \<and>
   store (snd (snd (CreateOrUpdateStatefulSet service ''ns-a'' redis1 (world denied)))) = denied"
proof -
  have get: "StatefulSets_Get (kubeClient service) ''ns-a'' (Name redis1) (store (world denied))
               = ((None, Some forbidden), denied)"
    by (simp add: fake_defs denied_def absent_def)
  from fetch_failure_stops [OF get not_IsNotFound_forbidden run_pair]
  show ?thesis by (simp add: Name_redis1)
qed

text \<open>
  C3. When the get succeeds with a stored object of version token \<open>V\<close>, the object
  passed to update is the desired object with its token replaced by \<open>V\<close>, whatever
  token the caller had put there.
\<close>

theorem update_carries_stored_token:
  assumes "StatefulSets_Get (kubeClient s) ns (Name d) (store w) = ((Some stored, None), c1)"
    and "CreateOrUpdateStatefulSet s ns d w = (r, d', w')"
  shows "\<exists>x uerr.
           calls_of (since w w') =
             [(GetAction statefulsets ns (Name d), None), (UpdateAction statefulsets ns x, uerr)] \<and>
           x = d\<lparr>ResourceVersion := ResourceVersion stored\<rparr> \<and>
           ResourceVersion x = ResourceVersion stored \<and>
           r = Return uerr"
  using assms by (elim CreateOrUpdate_cases) auto

theorem update_carries_stored_token_witness:
  "ResourceVersion redis1 = ''7'' \<and>
   calls_of (since (world present)
      (snd (snd (CreateOrUpdateStatefulSet service ''ns-a'' redis1 (world present))))) =
     [(GetAction statefulsets ''ns-a'' ''redis-1'', None),
      (UpdateAction statefulsets ''ns-a'' (redis1\<lparr>ResourceVersion := ''10''\<rparr>), None)]"
proof -
  have get: "StatefulSets_Get (kubeClient service) ''ns-a'' (Name redis1) (store (world present))
               = ((Some stored_redis1, None), present)"
    by (simp add: fake_defs present_def)
  have update: "StatefulSets_Update (kubeClient service) ''ns-a'' x present = ((None, None), present)" for x
    by (simp add: fake_defs present_def absent_def)
  from update_carries_stored_token [OF get run_pair]
  obtain x uerr where
    calls: "calls_of (since (world present)
        (snd (snd (CreateOrUpdateStatefulSet service ''ns-a'' redis1 (world present))))) =
       [(GetAction statefulsets ''ns-a'' (Name redis1), None), (UpdateAction statefulsets ''ns-a'' x, uerr)]"
    and x: "x = redis1\<lparr>ResourceVersion := ResourceVersion stored_redis1\<rparr>"
    and r: "fst (CreateOrUpdateStatefulSet service ''ns-a'' redis1 (world present)) = Return uerr"
    by blast
  have "fst (CreateOrUpdateStatefulSet service ''ns-a'' redis1 (world present)) = Return None"
    by (simp add: CreateOrUpdate_present [OF get update])
  with r have "uerr = None" by simp
  with calls x show ?thesis
    by (simp add: Name_redis1 stored_redis1_def redis1_def)
qed

text \<open>
  C4. In every run the get is the first call. An update is among the calls only when
  that get succeeded with a stored object, whose version token the updated object
  carries; a create is among the calls only when that get failed (with NotFound).
\<close>

theorem update_after_fetch_create_when_absent:
  assumes "StatefulSets_Get (kubeClient s) ns (Name d) (store w) = ((obj, err), c1)"
    and "CreateOrUpdateStatefulSet s ns d w = (r, d', w')"
  shows "take 1 (calls_of (since w w')) = [(GetAction statefulsets ns (Name d), err)] \<and>
         (\<forall>res ns' x uerr. (UpdateAction res ns' x, uerr) \<in> set (calls_of (since w w')) \<longrightarrow>
            err = None \<and> (\<exists>stored. obj = Some stored \<and> ResourceVersion x = ResourceVersion stored)) \<and>
         (\<forall>res ns' x cerr. (CreateAction res ns' x, cerr) \<in> set (calls_of (since w w')) \<longrightarrow>
            (\<exists>e. err = Some e \<and> IsNotFound e))"
  using assms by (elim CreateOrUpdate_cases) auto

theorem update_after_fetch_create_when_absent_witness:
  "(UpdateAction statefulsets ''ns-a'' (redis1\<lparr>ResourceVersion := ''10''\<rparr>), None)
     \<in> set (calls_of (since (world present)
          (snd (snd (CreateOrUpdateStatefulSet service ''ns-a'' redis1 (world present)))))) \<and>
   take 1 (calls_of (since (world present)
      (snd (snd (CreateOrUpdateStatefulSet service ''ns-a'' redis1 (world present)))))) =
     [(GetAction statefulsets ''ns-a'' ''redis-1'', None)] \<and>
   (\<exists>stored. getStatefulSetResult present = Some stored \<and> ResourceVersion stored = ''10'') \<and>
   (CreateAction statefulsets ''ns-a'' redis1, None)
     \<in> set (calls_of (since (world vanished)
          (snd (snd (CreateOrUpdateStatefulSet service ''ns-a'' redis1 (world vanished)))))) \<and>
   (\<exists>e. errorOnGet vanished = Some e \<and> IsNotFound e)"
proof -
  let ?calls = "calls_of (since (world present)
      (snd (snd (CreateOrUpdateStatefulSet service ''ns-a'' redis1 (world present)))))"
  let ?calls' = "calls_of (since (world vanished)
      (snd (snd (CreateOrUpdateStatefulSet service ''ns-a'' redis1 (world vanished)))))"
  have vget: "StatefulSets_Get (kubeClient service) ''ns-a'' (Name redis1) (store (world vanished))
               = ((None, errorOnGet vanished), vanished)"
    by (simp add: fake_defs vanished_def absent_def)
  have vget': "StatefulSets_Get (kubeClient service) ''ns-a'' (Name redis1) (store (world vanished))
               = ((None, Some unknown404), vanished)"
    by (simp add: fake_defs vanished_def absent_def)
  have vcreate: "StatefulSets_Create (kubeClient service) ''ns-a'' redis1 vanished
                  = ((None, None), vanished)"
    by (simp add: fake_defs vanished_def absent_def)
  have vmem: "(CreateAction statefulsets ''ns-a'' redis1, None) \<in> set ?calls'"
    by (simp add: CreateOrUpdate_absent [OF vget' IsNotFound_unknown404 vcreate] since_def trace_world)
  from update_after_fetch_create_when_absent [OF vget run_pair]
  have "\<And>res ns' x cerr. (CreateAction res ns' x, cerr) \<in> set ?calls' \<Longrightarrow>
            (\<exists>e. errorOnGet vanished = Some e \<and> IsNotFound e)"
    by blast
  from this [OF vmem] have vanished: "\<exists>e. errorOnGet vanished = Some e \<and> IsNotFound e" .
  have get: "StatefulSets_Get (kubeClient service) ''ns-a'' (Name redis1) (store (world present))
               = ((getStatefulSetResult present, None), present)"
    by (simp add: fake_defs present_def)
  have get': "StatefulSets_Get (kubeClient service) ''ns-a'' (Name redis1) (store (world present))
               = ((Some stored_redis1, None), present)"
    by (simp add: fake_defs present_def)
  have update: "StatefulSets_Update (kubeClient service) ''ns-a'' x present = ((None, None), present)" for x
    by (simp add: fake_defs present_def absent_def)
  have mem: "(UpdateAction statefulsets ''ns-a'' (redis1\<lparr>ResourceVersion := ''10''\<rparr>), None) \<in> set ?calls"
    by (simp add: CreateOrUpdate_present [OF get' update] since_def trace_world stored_redis1_def)
  from update_after_fetch_create_when_absent [OF get run_pair]
  have first: "take 1 ?calls = [(GetAction statefulsets ''ns-a'' (Name redis1), None)]"
    and upd: "\<And>res ns' x uerr. (UpdateAction res ns' x, uerr) \<in> set ?calls \<Longrightarrow>
            (\<exists>stored. getStatefulSetResult present = Some stored \<and> ResourceVersion x = ResourceVersion stored)"
    by blast+
  from upd [OF mem] first mem vmem vanished show ?thesis
    by (auto simp: Name_redis1)
qed

text \<open>
  C9. After any run the caller's object is the desired object as it was given, but for
  one field on the update path: its version token is then the stored object's. On the
  create path, on a failed get and on a panic the object is untouched.
\<close>

theorem desired_changes_only_in_version_token:
  assumes "StatefulSets_Get (kubeClient s) ns (Name d) (store w) = ((obj, err), c1)"
    and "CreateOrUpdateStatefulSet s ns d w = (r, d', w')"
  shows "d' = (case (obj, err) of
                 (Some stored, None) \<Rightarrow> d\<lparr>ResourceVersion := ResourceVersion stored\<rparr>
               | _ \<Rightarrow> d) \<and>
         d' = d\<lparr>ResourceVersion := ResourceVersion d'\<rparr> \<and>
         Name d' = Name d \<and> Namespace d' = Namespace d \<and> Labels d' = Labels d \<and> Spec d' = Spec d"
  using assms by (elim CreateOrUpdate_cases) (auto split: option.splits)

theorem desired_changes_only_in_version_token_witness:
  "fst (snd (CreateOrUpdateStatefulSet service ''ns-a'' redis1 (world present)))
     = redis1\<lparr>ResourceVersion := ''10''\<rparr> \<and>
   Spec (fst (snd (CreateOrUpdateStatefulSet service ''ns-a'' redis1 (world present)))) = Spec redis1 \<and>
   Name (fst (snd (CreateOrUpdateStatefulSet service ''ns-a'' redis1 (world present)))) = ''redis-1''"
proof -
  have get: "StatefulSets_Get (kubeClient service) ''ns-a'' (Name redis1) (store (world present))
               = ((Some stored_redis1, None), present)"
    by (simp add: fake_defs present_def)
  from desired_changes_only_in_version_token [OF get run_pair]
  show ?thesis by (simp add: Name_redis1 stored_redis1_def)
qed

section \<open>Delete and list\<close>

lemma DeleteStatefulSet_run:
  assumes "StatefulSets_Delete (kubeClient s) ns name
             \<lparr>PropagationPolicy = Some DeletePropagationForeground\<rparr> (store w) = (err, c)"
  shows "DeleteStatefulSet s ns name w =
           (err,
            w\<lparr>store := c,
              trace := trace w @
                [Call (DeleteAction statefulsets ns name
                         \<lparr>PropagationPolicy = Some DeletePropagationForeground\<rparr>) err,
                 Metric ns ''StatefulSet'' name ''DELETE'' err]\<rparr>)"
  using assms by (simp add: DeleteStatefulSet_def invoked_def recordMetrics_def)

lemma ListStatefulSets_run:
  assumes "StatefulSets_List (kubeClient s) ns \<lparr>LabelSelector = []\<rparr> (store w) = ((l, err), c)"
  shows "ListStatefulSets s ns w =
           ((l, err),
            w\<lparr>store := c,
              trace := trace w @
                [Call (ListAction statefulsets ns \<lparr>LabelSelector = []\<rparr>) err,
                 Metric ns ''StatefulSet'' NOT_APPLICABLE ''LIST'' err]\<rparr>)"
  using assms by (simp add: ListStatefulSets_def invoked_def recordMetrics_def)

text \<open>
  C6. A delete is one call to the client, and its options ask for foreground
  propagation: never the default (no policy), never orphan or background. The result
  is the error the client answered.
\<close>

theorem delete_requests_foreground_propagation:
  assumes "DeleteStatefulSet s ns name w = (r, w')"
  shows "calls_of (since w w') =
           [(DeleteAction statefulsets ns name \<lparr>PropagationPolicy = Some DeletePropagationForeground\<rparr>, r)] \<and>
         (\<forall>res ns' name' opts err. (DeleteAction res ns' name' opts, err) \<in> set (calls_of (since w w')) \<longrightarrow>
            PropagationPolicy opts = Some DeletePropagationForeground) \<and>
         r = fst (StatefulSets_Delete (kubeClient s) ns name
                    \<lparr>PropagationPolicy = Some DeletePropagationForeground\<rparr> (store w))"
proof -
  obtain err c where
    del: "StatefulSets_Delete (kubeClient s) ns name
            \<lparr>PropagationPolicy = Some DeletePropagationForeground\<rparr> (store w) = (err, c)"
    by (metis surj_pair)
  from DeleteStatefulSet_run [OF del] assms del show ?thesis
    by (auto simp: since_def)
qed

theorem delete_requests_foreground_propagation_witness:
  "calls_of (since (world present) (snd (DeleteStatefulSet service ''ns-a'' ''redis-1'' (world present)))) =
     [(DeleteAction statefulsets ''ns-a'' ''redis-1''
         \<lparr>PropagationPolicy = Some DeletePropagationForeground\<rparr>, None)]"
proof -
  have "fst (DeleteStatefulSet service ''ns-a'' ''redis-1'' (world present)) = None"
    by (simp add: DeleteStatefulSet_def fake_defs present_def absent_def)
  with delete_requests_foreground_propagation [OF prod.collapse [symmetric],
      where s = service and ns = "''ns-a''" and name = "''redis-1''" and w = "world present"]
  show ?thesis by simp
qed

section \<open>The pods of a StatefulSet\<close>

text \<open>
  C7, as the code has it. When the get succeeds with a StatefulSet whose
  \<^verbatim>\<open>Spec.Selector\<close> is not nil, the selector string is the \<open>k=v\<close> of the match labels
  joined by commas, in the order in which the labels are visited; the client then
  receives exactly one more call, a list of pods in the same namespace with that
  selector, and what it answers is the result.
\<close>

theorem pods_listed_by_match_labels:
  assumes "StatefulSets_Get (kubeClient s) ns name (store w) = ((Some sts, None), c1)"
    and "Selector (Spec sts) = Some sel"
    and "Pods_List (kubeClient s) ns
           \<lparr>LabelSelector = Join (map (\<lambda>(k, v). k @ ''='' @ v) (MatchLabels sel)) '',''\<rparr> c1
         = ((pl, lerr), c2)"
    and "GetStatefulSetPods s ns name w = (r, w')"
  shows "r = Return (pl, lerr) \<and>
         calls_of (since w w') =
           [(GetAction statefulsets ns name, None),
            (ListAction pods ns
               \<lparr>LabelSelector = Join (map (\<lambda>(k, v). k @ ''='' @ v) (MatchLabels sel)) '',''\<rparr>, lerr)]"
  using GetStatefulSetPods_run [OF assms(1-3)] assms(4)
  by (auto simp: since_def)

theorem pods_listed_by_match_labels_witness:
  "fst (GetStatefulSetPods service ''ns-a'' ''redis-1'' (world present)) =
     Return (Some [pod ''ns-a'' ''redis-1-0'' [(''app'', ''redis''), (''role'', ''replica'')]], None) \<and>
   calls_of (since (world present) (snd (GetStatefulSetPods service ''ns-a'' ''redis-1'' (world present)))) =
     [(GetAction statefulsets ''ns-a'' ''redis-1'', None),
      (ListAction pods ''ns-a'' \<lparr>LabelSelector = ''app=redis,role=replica''\<rparr>, None)]"
proof -
  have get: "StatefulSets_Get (kubeClient service) ''ns-a'' ''redis-1'' (store (world present))
               = ((Some stored_redis1, None), present)"
    by (simp add: fake_defs present_def)
  have sel: "Selector (Spec stored_redis1) = Some \<lparr>MatchLabels = [(''app'', ''redis''), (''role'', ''replica'')]\<rparr>"
    by (simp add: stored_redis1_def redis1_def)
  have list: "Pods_List (kubeClient service) ''ns-a''
                \<lparr>LabelSelector = Join (map (\<lambda>(k, v). k @ ''='' @ v)
                   (MatchLabels \<lparr>MatchLabels = [(''app'', ''redis''), (''role'', ''replica'')]\<rparr>)) '',''\<rparr> present
              = ((Some [pod ''ns-a'' ''redis-1-0'' [(''app'', ''redis''), (''role'', ''replica'')]], None), present)"
    by (simp add: fake_defs present_def absent_def somePods_def pod_def selects_def Sprintf_def)
  from pods_listed_by_match_labels [OF get sel list prod.collapse [symmetric]]
  show ?thesis by simp
qed

lemma GetStatefulSetPods_nil_selector:
  assumes get: "StatefulSets_Get (kubeClient s) ns name (store w) = ((Some sts, None), c1)"
    and sel: "Selector (Spec sts) = None"
  shows "GetStatefulSetPods s ns name w =
           (Panic,
            w\<lparr>store := c1,
              trace := trace w @ [Call (GetAction statefulsets ns name) None,
                                  Metric ns ''StatefulSet'' name ''GET'' None]\<rparr>)"
  using sel by (simp add: GetStatefulSetPods_def GetStatefulSet_run [OF get])

text \<open>
  C7 as stated, for every StatefulSet whose get succeeds, fails: the selector is a
  pointer that the code reads without a check. On a fetched StatefulSet whose selector
  is nil the function panics after the get: no selector string is built and no pod
  list is issued.
\<close>

theorem pods_listed_for_every_fetched_StatefulSet_counterexample:
  "fst (StatefulSets_Get (kubeClient service) ''ns-a'' ''redis-1'' (store (world selectorless)))
     = (Some stored_selectorless, None) \<and>
   fst (GetStatefulSetPods service ''ns-a'' ''redis-1'' (world selectorless)) = Panic \<and>
   calls_of (since (world selectorless)
      (snd (GetStatefulSetPods service ''ns-a'' ''redis-1'' (world selectorless)))) =
     [(GetAction statefulsets ''ns-a'' ''redis-1'', None)]"
proof -
  have get: "StatefulSets_Get (kubeClient service) ''ns-a'' ''redis-1'' (store (world selectorless))
               = ((Some stored_selectorless, None), selectorless)"
    by (simp add: fake_defs selectorless_def present_def)
  have sel: "Selector (Spec stored_selectorless) = None"
    by (simp add: stored_selectorless_def)
  show ?thesis
    by (simp add: GetStatefulSetPods_nil_selector [OF get sel] get since_def trace_world)
qed

text \<open>
  C10. When the selector of the StatefulSet has no match labels, the pod list is
  called with the empty selector string, and its answer is the result. The empty
  string is the selector of the API that selects everything: against a store that
  answers it with every pod of the namespace, every pod of the namespace is returned.
\<close>

theorem empty_match_labels_list_every_pod:
  assumes "StatefulSets_Get (kubeClient s) ns name (store w) = ((Some sts, None), c1)"
    and "Selector (Spec sts) = Some sel"
    and "MatchLabels sel = []"
    and "Pods_List (kubeClient s) ns \<lparr>LabelSelector = []\<rparr> c1 = ((everyPod, lerr), c2)"
    and "GetStatefulSetPods s ns name w = (r, w')"
  shows "r = Return (everyPod, lerr) \<and>
         calls_of (since w w') =
           [(GetAction statefulsets ns name, None), (ListAction pods ns \<lparr>LabelSelector = []\<rparr>, lerr)]"
proof -
  from assms(3,4)
  have "Pods_List (kubeClient s) ns
           \<lparr>LabelSelector = Join (map (\<lambda>(k, v). k @ ''='' @ v) (MatchLabels sel)) '',''\<rparr> c1
         = ((everyPod, lerr), c2)"
    by simp
  from GetStatefulSetPods_run [OF assms(1,2) this] assms(3,5) show ?thesis
    by (auto simp: since_def)
qed

lemma fakeClient_empty_selector:
  "Pods_List (kubeClient service) ns \<lparr>LabelSelector = []\<rparr> c =
     ((Some (filter (\<lambda>p. Namespace p = ns) (podsOfCluster c)), None), c)"
  by (simp add: fake_defs selects_def)

theorem empty_match_labels_list_every_pod_witness:
  "fst (GetStatefulSetPods service ''ns-a'' ''redis-1'' (world unselective)) =
     Return (Some (filter (\<lambda>p. Namespace p = ''ns-a'') somePods), None) \<and>
   filter (\<lambda>p. Namespace p = ''ns-a'') somePods =
     [pod ''ns-a'' ''redis-1-0'' [(''app'', ''redis''), (''role'', ''replica'')],
      pod ''ns-a'' ''web-0'' [(''app'', ''web'')]] \<and>
   calls_of (since (world unselective) (snd (GetStatefulSetPods service ''ns-a'' ''redis-1'' (world unselective)))) =
     [(GetAction statefulsets ''ns-a'' ''redis-1'', None),
      (ListAction pods ''ns-a'' \<lparr>LabelSelector = []\<rparr>, None)]"
proof -
  have get: "StatefulSets_Get (kubeClient service) ''ns-a'' ''redis-1'' (store (world unselective))
               = ((Some stored_unselective, None), unselective)"
    by (simp add: fake_defs unselective_def present_def)
  have sel: "Selector (Spec stored_unselective) = Some \<lparr>MatchLabels = []\<rparr>"
    by (simp add: stored_unselective_def)
  have empty: "MatchLabels \<lparr>MatchLabels = []\<rparr> = []"
    by simp
  have pods: "podsOfCluster unselective = somePods"
    by (simp add: unselective_def present_def absent_def)
  have all: "filter (\<lambda>p. Namespace p = ''ns-a'') somePods =
     [pod ''ns-a'' ''redis-1-0'' [(''app'', ''redis''), (''role'', ''replica'')],
      pod ''ns-a'' ''web-0'' [(''app'', ''web'')]]"
    by (simp add: somePods_def pod_def)
  from empty_match_labels_list_every_pod
    [OF get sel empty fakeClient_empty_selector prod.collapse [symmetric]] pods all
  show ?thesis by simp
qed

section \<open>Errors reach the caller as the client made them\<close>

text \<open>
  C8, as the code has it. Every error a call to the client answers, other than a
  NotFound on the get, is the result of the run, the very value the client returned:
  the result of a run that returns is the error of its last call. No call is made
  twice and a run makes at most two, so nothing is retried. A failed create or update
  therefore never yields a nil result. The same holds for \<^verbatim>\<open>CreateStatefulSet\<close> and
  \<^verbatim>\<open>UpdateStatefulSet\<close> called on their own.
\<close>

theorem errors_returned_as_answered_never_retried:
  assumes "CreateOrUpdateStatefulSet s ns d w = (r, d', w')"
  shows "(\<forall>a e. (a, Some e) \<in> set (calls_of (since w w')) \<longrightarrow>
            (a = GetAction statefulsets ns (Name d) \<and> IsNotFound e) \<or> r = Return (Some e)) \<and>
         (\<forall>x. r = Return x \<longrightarrow> x = snd (last (calls_of (since w w')))) \<and>
         distinct (map fst (calls_of (since w w'))) \<and>
         length (calls_of (since w w')) \<le> 2 \<and>
         fst (CreateStatefulSet s ns d w) = snd (fst (StatefulSets_Create (kubeClient s) ns d (store w))) \<and>
         fst (UpdateStatefulSet s ns d w) = snd (fst (StatefulSets_Update (kubeClient s) ns d (store w)))"
proof -
  obtain obj err c1 where
    get: "StatefulSets_Get (kubeClient s) ns (Name d) (store w) = ((obj, err), c1)"
    by (metis surj_pair)
  obtain cobj cerr c2 where
    create: "StatefulSets_Create (kubeClient s) ns d (store w) = ((cobj, cerr), c2)"
    by (metis surj_pair)
  obtain uobj uerr c3 where
    update: "StatefulSets_Update (kubeClient s) ns d (store w) = ((uobj, uerr), c3)"
    by (metis surj_pair)
  have alone: "fst (CreateStatefulSet s ns d w) = snd (fst (StatefulSets_Create (kubeClient s) ns d (store w)))"
    "fst (UpdateStatefulSet s ns d w) = snd (fst (StatefulSets_Update (kubeClient s) ns d (store w)))"
    by (simp_all add: CreateStatefulSet_run [OF create] UpdateStatefulSet_run [OF update] create update)
  from get assms have
    "(\<forall>a e. (a, Some e) \<in> set (calls_of (since w w')) \<longrightarrow>
            (a = GetAction statefulsets ns (Name d) \<and> IsNotFound e) \<or> r = Return (Some e)) \<and>
     (\<forall>x. r = Return x \<longrightarrow> x = snd (last (calls_of (since w w')))) \<and>
     distinct (map fst (calls_of (since w w'))) \<and>
     length (calls_of (since w w')) \<le> 2"
    by (elim CreateOrUpdate_cases) auto
  with alone show ?thesis by simp
qed

theorem errors_returned_as_answered_never_retried_witness:
  "(UpdateAction statefulsets ''ns-a'' (redis1\<lparr>ResourceVersion := ''10''\<rparr>), Some conflict)
     \<in> set (calls_of (since (world update_fails)
          (snd (snd (CreateOrUpdateStatefulSet service ''ns-a'' redis1 (world update_fails)))))) \<and>
   fst (CreateOrUpdateStatefulSet service ''ns-a'' redis1 (world update_fails)) = Return (Some conflict)"
proof -
  let ?calls = "calls_of (since (world update_fails)
      (snd (snd (CreateOrUpdateStatefulSet service ''ns-a'' redis1 (world update_fails)))))"
  have get: "StatefulSets_Get (kubeClient service) ''ns-a'' (Name redis1) (store (world update_fails))
               = ((Some stored_redis1, None), update_fails)"
    by (simp add: fake_defs update_fails_def present_def)
  have update: "StatefulSets_Update (kubeClient service) ''ns-a'' x update_fails
                  = ((None, Some conflict), update_fails)" for x
    by (simp add: fake_defs update_fails_def)
  have mem: "(UpdateAction statefulsets ''ns-a'' (redis1\<lparr>ResourceVersion := ''10''\<rparr>), Some conflict) \<in> set ?calls"
    by (simp add: CreateOrUpdate_present [OF get update] since_def trace_world stored_redis1_def)
  from errors_returned_as_answered_never_retried [OF run_pair,
      where s = service and ns = "''ns-a''" and d = redis1 and w = "world update_fails"]
  have "\<And>a e. (a, Some e) \<in> set ?calls \<Longrightarrow>
          (a = GetAction statefulsets ''ns-a'' (Name redis1) \<and> IsNotFound e) \<or>
          fst (CreateOrUpdateStatefulSet service ''ns-a'' redis1 (world update_fails)) = Return (Some e)"
    by blast
  from this [OF mem] mem show ?thesis by simp
qed

text \<open>
  C8 as stated fails: the error is not wrapped. At the input of the repository's test
  (a create that fails with the plain error \<open>wanted error\<close>) the result is that error
  itself, and its text names neither the kind, nor the namespace, nor the object, nor
  the verb.
\<close>

theorem errors_wrapped_with_context_counterexample:
  "fst (CreateOrUpdateStatefulSet service ''ns-a'' redis1 (world create_fails)) = Return (Some wanted) \<and>
   snd (fst (StatefulSets_Create (kubeClient service) ''ns-a'' redis1 create_fails)) = Some wanted \<and>
   Error wanted = ''wanted error'' \<and>
   \<not> Contains (Error wanted) ''StatefulSet'' \<and>
   \<not> Contains (Error wanted) ''ns-a'' \<and>
   \<not> Contains (Error wanted) ''redis-1'' \<and>
   \<not> Contains (Error wanted) ''CREATE''"
proof -
  have get: "StatefulSets_Get (kubeClient service) ''ns-a'' (Name redis1) (store (world create_fails))
               = ((None, Some notFound), create_fails)"
    by (simp add: fake_defs create_fails_def absent_def)
  note nf = IsNotFound_notFound
  have create: "StatefulSets_Create (kubeClient service) ''ns-a'' redis1 create_fails
                  = ((None, Some wanted), create_fails)"
    by (simp add: fake_defs create_fails_def)
  have "fst (CreateOrUpdateStatefulSet service ''ns-a'' redis1 (world create_fails)) = Return (Some wanted)"
    by (simp add: CreateOrUpdate_absent [OF get nf create])
  moreover have "Error wanted = ''wanted error''"
    by (simp add: wanted_def)
  ultimately show ?thesis
    by (simp add: create)
qed

section \<open>Reports to the metrics recorder\<close>

text \<open>
  The operations that report every call: the reports of the run are those the
  contract asks for its calls, one for one and in order.
\<close>

lemma GetStatefulSet_reported:
  assumes "GetStatefulSet s ns name w = (r, w')"
  shows "metrics_of (since w w') = map report_of (calls_of (since w w'))"
proof -
  obtain obj err c where "StatefulSets_Get (kubeClient s) ns name (store w) = ((obj, err), c)"
    by (metis surj_pair)
  from GetStatefulSet_run [OF this] assms show ?thesis
    by (auto simp: since_def)
qed

lemma CreateStatefulSet_reported:
  assumes "CreateStatefulSet s ns d w = (r, w')"
  shows "metrics_of (since w w') = map report_of (calls_of (since w w'))"
proof -
  obtain obj err c where "StatefulSets_Create (kubeClient s) ns d (store w) = ((obj, err), c)"
    by (metis surj_pair)
  from CreateStatefulSet_run [OF this] assms show ?thesis
    by (auto simp: since_def)
qed

lemma UpdateStatefulSet_reported:
  assumes "UpdateStatefulSet s ns d w = (r, w')"
  shows "metrics_of (since w w') = map report_of (calls_of (since w w'))"
proof -
  obtain obj err c where "StatefulSets_Update (kubeClient s) ns d (store w) = ((obj, err), c)"
    by (metis surj_pair)
  from UpdateStatefulSet_run [OF this] assms show ?thesis
    by (auto simp: since_def)
qed

lemma DeleteStatefulSet_reported:
  assumes "DeleteStatefulSet s ns name w = (r, w')"
  shows "metrics_of (since w w') = map report_of (calls_of (since w w'))"
proof -
  obtain err c where "StatefulSets_Delete (kubeClient s) ns name
      \<lparr>PropagationPolicy = Some DeletePropagationForeground\<rparr> (store w) = (err, c)"
    by (metis surj_pair)
  from DeleteStatefulSet_run [OF this] assms show ?thesis
    by (auto simp: since_def)
qed

lemma ListStatefulSets_reported:
  assumes "ListStatefulSets s ns w = (r, w')"
  shows "metrics_of (since w w') = map report_of (calls_of (since w w'))"
proof -
  obtain l err c where "StatefulSets_List (kubeClient s) ns \<lparr>LabelSelector = []\<rparr> (store w) = ((l, err), c)"
    by (metis surj_pair)
  from ListStatefulSets_run [OF this] assms show ?thesis
    by (auto simp: since_def)
qed

lemma CreateOrUpdateStatefulSet_reported:
  assumes "CreateOrUpdateStatefulSet s ns d w = (r, d', w')"
  shows "metrics_of (since w w') = map report_of (calls_of (since w w'))"
proof -
  obtain obj err c1 where
    get: "StatefulSets_Get (kubeClient s) ns (Name d) (store w) = ((obj, err), c1)"
    by (metis surj_pair)
  show ?thesis
  proof (cases err)
    case (Some e)
    with get have get': "StatefulSets_Get (kubeClient s) ns (Name d) (store w) = ((obj, Some e), c1)"
      by simp
    show ?thesis
    proof (cases "IsNotFound e")
      case True
      obtain cobj cerr c2 where "StatefulSets_Create (kubeClient s) ns d c1 = ((cobj, cerr), c2)"
        by (metis surj_pair)
      from CreateOrUpdate_absent [OF get' True this] assms show ?thesis
        by (auto simp: since_def)
    next
      case False
      from CreateOrUpdate_fetch_failed [OF get' False] assms show ?thesis
        by (auto simp: since_def)
    qed
  next
    case None
    show ?thesis
    proof (cases obj)
      case (Some stored)
      with get None
      have get': "StatefulSets_Get (kubeClient s) ns (Name d) (store w) = ((Some stored, None), c1)"
        by simp
      obtain uobj uerr c2 where
        "StatefulSets_Update (kubeClient s) ns (d\<lparr>ResourceVersion := ResourceVersion stored\<rparr>) c1
           = ((uobj, uerr), c2)"
        by (metis surj_pair)
      from CreateOrUpdate_present [OF get' this] assms show ?thesis
        by (auto simp: since_def)
    next
      case obj_None: None
      with get None
      have "StatefulSets_Get (kubeClient s) ns (Name d) (store w) = ((None, None), c1)"
        by simp
      from CreateOrUpdate_nil [OF this] assms show ?thesis
        by (auto simp: since_def)
    qed
  qed
qed

text \<open>The pod list of \<^verbatim>\<open>GetStatefulSetPods\<close> is not reported, whatever the client.\<close>

lemma GetStatefulSetPods_list_unreported:
  assumes "StatefulSets_Get (kubeClient s) ns name (store w) = ((Some sts, None), c1)"
    and "Selector (Spec sts) = Some sel"
    and "GetStatefulSetPods s ns name w = (r, w')"
  shows "length (calls_of (since w w')) = 2 \<and>
         metrics_of (since w w') = [Metric ns ''StatefulSet'' name ''GET'' None] \<and>
         metrics_of (since w w') \<noteq> map report_of (calls_of (since w w'))"
proof -
  obtain pl lerr c2 where
    "Pods_List (kubeClient s) ns
       \<lparr>LabelSelector = Join (map (\<lambda>(k, v). k @ ''='' @ v) (MatchLabels sel)) '',''\<rparr> c1
     = ((pl, lerr), c2)"
    by (metis surj_pair)
  from GetStatefulSetPods_run [OF assms(1,2) this] assms(3) show ?thesis
    by (auto simp: since_def)
qed

text \<open>
  C5 fails on the code: \<^verbatim>\<open>GetStatefulSetPods\<close> of \<open>redis-1\<close> in \<open>ns-a\<close> makes two calls,
  the get and the pod list, and the recorder receives one report, of the get. The
  report of the list that the contract asks for is missing.
\<close>

theorem pod_list_of_GetStatefulSetPods_unreported:
  "calls_of (since (world present) (snd (GetStatefulSetPods service ''ns-a'' ''redis-1'' (world present)))) =
     [(GetAction statefulsets ''ns-a'' ''redis-1'', None),
      (ListAction pods ''ns-a'' \<lparr>LabelSelector = ''app=redis,role=replica''\<rparr>, None)] \<and>
   metrics_of (since (world present) (snd (GetStatefulSetPods service ''ns-a'' ''redis-1'' (world present)))) =
     [Metric ''ns-a'' ''StatefulSet'' ''redis-1'' ''GET'' None] \<and>
   map report_of
     (calls_of (since (world present) (snd (GetStatefulSetPods service ''ns-a'' ''redis-1'' (world present))))) =
     [Metric ''ns-a'' ''StatefulSet'' ''redis-1'' ''GET'' None,
      Metric ''ns-a'' ''Pod'' NOT_APPLICABLE ''LIST'' None]"
proof -
  have get: "StatefulSets_Get (kubeClient service) ''ns-a'' ''redis-1'' (store (world present))
               = ((Some stored_redis1, None), present)"
    by (simp add: fake_defs present_def)
  have sel: "Selector (Spec stored_redis1) = Some \<lparr>MatchLabels = [(''app'', ''redis''), (''role'', ''replica'')]\<rparr>"
    by (simp add: stored_redis1_def redis1_def)
  have list: "Pods_List (kubeClient service) ''ns-a''
                \<lparr>LabelSelector = Join (map (\<lambda>(k, v). k @ ''='' @ v)
                   (MatchLabels \<lparr>MatchLabels = [(''app'', ''redis''), (''role'', ''replica'')]\<rparr>)) '',''\<rparr> present
              = ((Some [pod ''ns-a'' ''redis-1-0'' [(''app'', ''redis''), (''role'', ''replica'')]], None), present)"
    by (simp add: fake_defs present_def absent_def somePods_def pod_def selects_def Sprintf_def)
  show ?thesis
    by (simp add: GetStatefulSetPods_run [OF get sel list] since_def trace_world)
qed

end
